theory Spec2Isabelle
  imports Complex_Main "HOL-Library.Log_Nat" "HOL-Library.AList" "HOL-Library.Multiset"
begin

section \<open>JavaScript numbers\<close>

text \<open>
  The chart aggregation of \<^verbatim>\<open>components/dashboard/chart/index.tsx\<close> computes with
  JavaScript numbers: IEEE 754 binary64 values. A number is \<open>NaN\<close>, an infinity, or a
  finite value, kept here as the rational it denotes. Every arithmetic operation rounds
  its exact result to the nearest binary64 value, ties to even (\<open>to_double\<close>). The sign
  of zero is not modelled: \<open>Fin 0\<close> stands for both \<open>+0\<close> and \<open>-0\<close>.
\<close>

datatype number = NaN | PosInf | NegInf | Fin rat

definition pow2 :: "int \<Rightarrow> rat" where
  "pow2 e = (if 0 \<le> e then 2 ^ nat e else 1 / 2 ^ nat (- e))"

text \<open>\<open>expo x\<close> is the binary exponent of a positive rational: \<open>2^e \<le> x < 2^(e+1)\<close>.\<close>

definition expo :: "rat \<Rightarrow> int" where
  "expo x = (let (p, q) = quotient_of x; k = bitlen p - bitlen q
             in if pow2 k \<le> x then k else k - 1)"

definition round_half_even :: "rat \<Rightarrow> int" where
  "round_half_even r = (let f = \<lfloor>r\<rfloor>; d = r - of_int f
     in if d < 1 / 2 then f else if 1 / 2 < d then f + 1 else if even f then f else f + 1)"

text \<open>
  Rounding to binary64: 53 significant bits, the exponent not below \<open>-1022\<close>
  (subnormals), overflow to an infinity.
\<close>

definition to_double :: "rat \<Rightarrow> number" where
  "to_double x = (if x = 0 then Fin 0 else
     let a = \<bar>x\<bar>; e = max (expo a) (- 1022); q = pow2 (e - 52);
         y = of_int (round_half_even (a / q)) * q
     in if pow2 1024 \<le> y then (if 0 < x then PosInf else NegInf)
        else Fin (if 0 < x then y else - y))"

fun num_neg :: "number \<Rightarrow> number" where
  "num_neg NaN = NaN"
| "num_neg PosInf = NegInf"
| "num_neg NegInf = PosInf"
| "num_neg (Fin a) = Fin (- a)"

fun num_add :: "number \<Rightarrow> number \<Rightarrow> number" where
  "num_add (Fin a) (Fin b) = to_double (a + b)"
| "num_add NaN _ = NaN"
| "num_add _ NaN = NaN"
| "num_add PosInf NegInf = NaN"
| "num_add NegInf PosInf = NaN"
| "num_add PosInf _ = PosInf"
| "num_add _ PosInf = PosInf"
| "num_add NegInf _ = NegInf"
| "num_add _ NegInf = NegInf"

definition num_sub :: "number \<Rightarrow> number \<Rightarrow> number" where
  "num_sub x y = num_add x (num_neg y)"

text \<open>The sign of a number that is not \<open>NaN\<close>: \<open>-1\<close>, \<open>0\<close> or \<open>1\<close>.\<close>

fun num_sgn :: "number \<Rightarrow> int" where
  "num_sgn NaN = 0"
| "num_sgn PosInf = 1"
| "num_sgn NegInf = - 1"
| "num_sgn (Fin a) = (if a = 0 then 0 else if 0 < a then 1 else - 1)"

definition inf_of_sgn :: "int \<Rightarrow> number" where
  "inf_of_sgn s = (if s = 0 then NaN else if 0 < s then PosInf else NegInf)"

fun num_mul :: "number \<Rightarrow> number \<Rightarrow> number" where
  "num_mul (Fin a) (Fin b) = to_double (a * b)"
| "num_mul NaN _ = NaN"
| "num_mul _ NaN = NaN"
| "num_mul x y = inf_of_sgn (num_sgn x * num_sgn y)"

text \<open>
  Division. A finite nonzero value divided by zero is an infinity; as the sign of zero
  is not kept, the divisor zero is taken as \<open>+0\<close>. The source only divides by the
  nonzero constants \<open>100\<close> and \<open>1000 * 60 * 60 * 24\<close>.
\<close>

fun num_div :: "number \<Rightarrow> number \<Rightarrow> number" where
  "num_div (Fin a) (Fin b) = (if b = 0 then inf_of_sgn (num_sgn (Fin a)) else to_double (a / b))"
| "num_div NaN _ = NaN"
| "num_div _ NaN = NaN"
| "num_div (Fin a) _ = Fin 0"
| "num_div x (Fin b) = inf_of_sgn (num_sgn x * (if 0 \<le> b then 1 else - 1))"
| "num_div _ _ = NaN"

text \<open>\<^verbatim>\<open>Math.round\<close>: the nearest integer, a tie going towards \<open>+\<infinity>\<close>; \<^verbatim>\<open>Math.floor\<close>.\<close>

fun Math_round :: "number \<Rightarrow> number" where
  "Math_round (Fin a) = Fin (of_int \<lfloor>a + 1 / 2\<rfloor>)"
| "Math_round x = x"

fun Math_floor :: "number \<Rightarrow> number" where
  "Math_floor (Fin a) = Fin (of_int \<lfloor>a\<rfloor>)"
| "Math_floor x = x"

text \<open>The comparisons \<^verbatim>\<open><\<close> and \<^verbatim>\<open><=\<close>: false as soon as one side is \<open>NaN\<close>.\<close>

fun num_less :: "number \<Rightarrow> number \<Rightarrow> bool" where
  "num_less (Fin a) (Fin b) = (a < b)"
| "num_less NaN _ = False"
| "num_less _ NaN = False"
| "num_less NegInf PosInf = True"
| "num_less NegInf (Fin b) = True"
| "num_less (Fin a) PosInf = True"
| "num_less _ _ = False"

fun num_le :: "number \<Rightarrow> number \<Rightarrow> bool" where
  "num_le (Fin a) (Fin b) = (a \<le> b)"
| "num_le NaN _ = False"
| "num_le _ NaN = False"
| "num_le NegInf _ = True"
| "num_le _ PosInf = True"
| "num_le _ _ = False"

text \<open>Truthiness of a number: \<open>0\<close> and \<open>NaN\<close> are falsy.\<close>

fun num_truthy :: "number \<Rightarrow> bool" where
  "num_truthy NaN = False"
| "num_truthy (Fin a) = (a \<noteq> 0)"
| "num_truthy _ = True"

section \<open>Strings to numbers\<close>

text \<open>
  \<^verbatim>\<open>parseFloat\<close> skips leading white space and converts the longest prefix that is a
  decimal literal (\<open>StrDecimalLiteral\<close>: optional sign, then \<^verbatim>\<open>Infinity\<close> or digits with an
  optional fraction and exponent); without such a prefix the result is \<open>NaN\<close>.
  \<^verbatim>\<open>Number\<close> applied to a string trims white space on both sides, maps the empty string
  to \<open>0\<close>, and otherwise needs the whole string to be a decimal literal or an unsigned
  hexadecimal, octal or binary integer literal. A string is a list of code units below
  256; the white space and line terminator characters of the language in this range are
  U+0009 to U+000D, the space, and the no-break space U+00A0 (the others, U+1680,
  U+2000 to U+200A, U+2028, U+2029, U+202F, U+205F, U+3000 and U+FEFF, lie outside the
  type).
\<close>

definition is_ws :: "char \<Rightarrow> bool" where
  "is_ws c = (c \<in> set [CHR '' '', CHR 0x09, CHR 0x0A, CHR 0x0B, CHR 0x0C, CHR 0x0D, CHR 0xA0])"

definition hex_val :: "char \<Rightarrow> int option" where
  "hex_val c = map_of
     [(CHR ''0'', 0), (CHR ''1'', 1), (CHR ''2'', 2), (CHR ''3'', 3), (CHR ''4'', 4),
      (CHR ''5'', 5), (CHR ''6'', 6), (CHR ''7'', 7), (CHR ''8'', 8), (CHR ''9'', 9),
      (CHR ''a'', 10), (CHR ''b'', 11), (CHR ''c'', 12), (CHR ''d'', 13), (CHR ''e'', 14),
      (CHR ''f'', 15), (CHR ''A'', 10), (CHR ''B'', 11), (CHR ''C'', 12), (CHR ''D'', 13),
      (CHR ''E'', 14), (CHR ''F'', 15)] c"

definition is_digit_base :: "int \<Rightarrow> char \<Rightarrow> bool" where
  "is_digit_base b c = (case hex_val c of None \<Rightarrow> False | Some v \<Rightarrow> v < b)"

definition digits_val :: "int \<Rightarrow> string \<Rightarrow> int" where
  "digits_val b ds = foldl (\<lambda>a c. b * a + (case hex_val c of None \<Rightarrow> 0 | Some v \<Rightarrow> v)) 0 ds"

definition pow10 :: "int \<Rightarrow> rat" where
  "pow10 e = (if 0 \<le> e then 10 ^ nat e else 1 / 10 ^ nat (- e))"

text \<open>An optional exponent part: its value and the rest of the input.\<close>

definition parse_exponent :: "string \<Rightarrow> int \<times> string" where
  "parse_exponent s = (case s of
       [] \<Rightarrow> (0, s)
     | c # r \<Rightarrow>
         if c = CHR ''e'' \<or> c = CHR ''E'' then
           (let (neg, r1) = (case r of
                   [] \<Rightarrow> (False, r)
                 | d # r' \<Rightarrow> if d = CHR ''-'' then (True, r')
                            else if d = CHR ''+'' then (False, r') else (False, r));
                ds = takeWhile (is_digit_base 10) r1
            in if ds = [] then (0, s)
               else ((if neg then - digits_val 10 ds else digits_val 10 ds),
                     dropWhile (is_digit_base 10) r1))
         else (0, s))"

definition decimal_value :: "string \<Rightarrow> string \<Rightarrow> int \<Rightarrow> number" where
  "decimal_value ip fp e =
     to_double (of_int (digits_val 10 (ip @ fp)) * pow10 (e - int (length fp)))"

text \<open>The longest prefix that is a \<open>StrUnsignedDecimalLiteral\<close>, with the rest.\<close>

definition parse_unsigned :: "string \<Rightarrow> (number \<times> string) option" where
  "parse_unsigned s =
     (if take 8 s = ''Infinity'' then Some (PosInf, drop 8 s)
      else let ip = takeWhile (is_digit_base 10) s; r1 = dropWhile (is_digit_base 10) s
           in case r1 of
                [] \<Rightarrow> if ip = [] then None else Some (decimal_value ip [] 0, [])
              | c # r2 \<Rightarrow>
                  if c = CHR ''.'' then
                    (let fp = takeWhile (is_digit_base 10) r2;
                         r3 = dropWhile (is_digit_base 10) r2
                     in if ip = [] \<and> fp = [] then None
                        else let (e, r4) = parse_exponent r3
                             in Some (decimal_value ip fp e, r4))
                  else if ip = [] then None
                  else let (e, r4) = parse_exponent r1
                       in Some (decimal_value ip [] e, r4))"

definition parse_signed :: "string \<Rightarrow> (number \<times> string) option" where
  "parse_signed s = (case s of
       [] \<Rightarrow> None
     | c # r \<Rightarrow>
         if c = CHR ''+'' then parse_unsigned r
         else if c = CHR ''-'' then map_option (\<lambda>(v, r'). (num_neg v, r')) (parse_unsigned r)
         else parse_unsigned s)"

definition parseFloat :: "string \<Rightarrow> number" where
  "parseFloat s = (case parse_signed (dropWhile is_ws s) of
       None \<Rightarrow> NaN
     | Some (v, _) \<Rightarrow> v)"

definition trim :: "string \<Rightarrow> string" where
  "trim s = rev (dropWhile is_ws (rev (dropWhile is_ws s)))"

text \<open>An unsigned integer literal with prefix \<^verbatim>\<open>0x\<close>, \<^verbatim>\<open>0o\<close> or \<^verbatim>\<open>0b\<close>.\<close>

definition non_decimal_literal :: "string \<Rightarrow> number option" where
  "non_decimal_literal s = (case s of
       z # p # ds \<Rightarrow>
         (let b = (if p = CHR ''x'' \<or> p = CHR ''X'' then 16
                   else if p = CHR ''o'' \<or> p = CHR ''O'' then 8
                   else if p = CHR ''b'' \<or> p = CHR ''B'' then 2 else (0::int))
          in if z = CHR ''0'' \<and> b \<noteq> 0 \<and> ds \<noteq> [] \<and> list_all (is_digit_base b) ds
             then Some (to_double (of_int (digits_val b ds))) else None)
     | _ \<Rightarrow> None)"

definition StringToNumber :: "string \<Rightarrow> number" where
  "StringToNumber s = (let t = trim s in
     if t = [] then Fin 0
     else case non_decimal_literal t of
            Some v \<Rightarrow> v
          | None \<Rightarrow> (case parse_signed t of
                       Some (v, []) \<Rightarrow> v
                     | _ \<Rightarrow> NaN))"

section \<open>Dates\<close>

text \<open>
  A \<^verbatim>\<open>Date\<close> object holds a time value: a whole number of milliseconds since the epoch,
  at most \<open>8.64 * 10^15\<close> in absolute value, or \<open>NaN\<close> (an invalid date). The calendar
  functions follow the definitions of the language standard (\<open>DayFromYear\<close>,
  \<open>YearFromTime\<close>, \<open>MonthFromTime\<close>, \<open>DateFromTime\<close>, \<open>MakeDay\<close>, \<open>MakeDate\<close>, \<open>TimeClip\<close>).
  The getters and setters used by the source are the local-time ones; the local time zone
  is taken to be UTC, so no offset and no daylight saving transition is modelled.
  A getter of an invalid date returns \<open>NaN\<close>, written \<open>None\<close> here.
\<close>

datatype Date = Invalid_Date | Date int

definition msPerDay :: int where
  "msPerDay = 86400000"

definition TimeClip :: "int \<Rightarrow> Date" where
  "TimeClip tv = (if 8640000000000000 < \<bar>tv\<bar> then Invalid_Date else Date tv)"

text \<open>\<^verbatim>\<open>new Date(value)\<close> for a number: not finite or out of range is invalid, a fraction is cut off.\<close>

fun new_Date :: "number \<Rightarrow> Date" where
  "new_Date (Fin v) =
     (if 8640000000000000 < \<bar>v\<bar> then Invalid_Date
      else Date (if 0 \<le> v then \<lfloor>v\<rfloor> else \<lceil>v\<rceil>))"
| "new_Date _ = Invalid_Date"

fun getTime :: "Date \<Rightarrow> number" where
  "getTime Invalid_Date = NaN"
| "getTime (Date t) = Fin (of_int t)"

definition DayFromYear :: "int \<Rightarrow> int" where
  "DayFromYear y =
     365 * (y - 1970) + (y - 1969) div 4 - (y - 1901) div 100 + (y - 1601) div 400"

definition InLeapYear :: "int \<Rightarrow> bool" where
  "InLeapYear y = (DayFromYear (y + 1) - DayFromYear y = 366)"

text \<open>
  The year of a day number: the largest \<open>y\<close> with \<open>DayFromYear y \<le> d\<close>. It is one of the
  three years around the estimate by the mean length of a year.
\<close>

definition YearFromDay :: "int \<Rightarrow> int" where
  "YearFromDay d = (let y = 1970 + (d * 400) div 146097
     in if DayFromYear (y + 1) \<le> d then y + 1
        else if DayFromYear y \<le> d then y else y - 1)"

text \<open>The number of days of a year before its month \<open>m\<close> (\<open>0\<close> is January).\<close>

definition month_start :: "bool \<Rightarrow> int \<Rightarrow> int" where
  "month_start leap m =
     (let l = (if leap then 1 else 0)
      in if m = 0 then 0 else if m = 1 then 31 else if m = 2 then 59 + l
         else if m = 3 then 90 + l else if m = 4 then 120 + l else if m = 5 then 151 + l
         else if m = 6 then 181 + l else if m = 7 then 212 + l else if m = 8 then 243 + l
         else if m = 9 then 273 + l else if m = 10 then 304 + l else 334 + l)"

definition MonthFromDay :: "int \<Rightarrow> int" where
  "MonthFromDay d =
     (let y = YearFromDay d; n = d - DayFromYear y; leap = InLeapYear y
      in if n < month_start leap 1 then 0 else if n < month_start leap 2 then 1
         else if n < month_start leap 3 then 2 else if n < month_start leap 4 then 3
         else if n < month_start leap 5 then 4 else if n < month_start leap 6 then 5
         else if n < month_start leap 7 then 6 else if n < month_start leap 8 then 7
         else if n < month_start leap 9 then 8 else if n < month_start leap 10 then 9
         else if n < month_start leap 11 then 10 else 11)"

definition DateFromDay :: "int \<Rightarrow> int" where
  "DateFromDay d =
     (let y = YearFromDay d
      in d - DayFromYear y - month_start (InLeapYear y) (MonthFromDay d) + 1)"

definition MakeDay :: "int \<Rightarrow> int \<Rightarrow> int \<Rightarrow> int" where
  "MakeDay year month dt =
     (let ym = year + month div 12; mn = month mod 12
      in DayFromYear ym + month_start (InLeapYear ym) mn + dt - 1)"

definition MakeDate :: "int \<Rightarrow> int \<Rightarrow> int" where
  "MakeDate day time = day * msPerDay + time"

fun getFullYear :: "Date \<Rightarrow> int option" where
  "getFullYear Invalid_Date = None"
| "getFullYear (Date t) = Some (YearFromDay (t div msPerDay))"

fun getMonth :: "Date \<Rightarrow> int option" where
  "getMonth Invalid_Date = None"
| "getMonth (Date t) = Some (MonthFromDay (t div msPerDay))"

fun getDate :: "Date \<Rightarrow> int option" where
  "getDate Invalid_Date = None"
| "getDate (Date t) = Some (DateFromDay (t div msPerDay))"

text \<open>\<^verbatim>\<open>setMonth(m)\<close> keeps the year, the day of the month and the time within the day.\<close>

fun setMonth :: "Date \<Rightarrow> int option \<Rightarrow> Date" where
  "setMonth (Date t) (Some m) =
     TimeClip (MakeDate (MakeDay (YearFromDay (t div msPerDay)) m (DateFromDay (t div msPerDay)))
                        (t mod msPerDay))"
| "setMonth _ _ = Invalid_Date"

text \<open>\<^verbatim>\<open>setDate(dt)\<close> keeps the year, the month and the time within the day.\<close>

fun setDate :: "Date \<Rightarrow> int option \<Rightarrow> Date" where
  "setDate (Date t) (Some dt) =
     TimeClip (MakeDate (MakeDay (YearFromDay (t div msPerDay)) (MonthFromDay (t div msPerDay)) dt)
                        (t mod msPerDay))"
| "setDate _ _ = Invalid_Date"

text \<open>\<^verbatim>\<open>toLocaleString("en-US", { month: "short" })\<close>.\<close>

definition month_short :: "int \<Rightarrow> string" where
  "month_short m =
     (if m = 0 then ''Jan'' else if m = 1 then ''Feb'' else if m = 2 then ''Mar''
      else if m = 3 then ''Apr'' else if m = 4 then ''May'' else if m = 5 then ''Jun''
      else if m = 6 then ''Jul'' else if m = 7 then ''Aug'' else if m = 8 then ''Sep''
      else if m = 9 then ''Oct'' else if m = 10 then ''Nov'' else ''Dec'')"

definition toLocaleString_month_short :: "Date \<Rightarrow> string" where
  "toLocaleString_month_short d =
     (case getMonth d of None \<Rightarrow> ''Invalid Date'' | Some m \<Rightarrow> month_short m)"

text \<open>\<^verbatim>\<open>String(n)\<close> for the value of a getter, and \<^verbatim>\<open>padStart\<close>.\<close>

fun string_of_nat :: "nat \<Rightarrow> string" where
  "string_of_nat n =
     (if n < 10 then [''0123456789'' ! n]
      else string_of_nat (n div 10) @ [''0123456789'' ! (n mod 10)])"

definition String_of :: "int option \<Rightarrow> string" where
  "String_of v = (case v of
       None \<Rightarrow> ''NaN''
     | Some i \<Rightarrow> if i < 0 then CHR ''-'' # string_of_nat (nat (- i)) else string_of_nat (nat i))"

definition padStart :: "string \<Rightarrow> nat \<Rightarrow> char \<Rightarrow> string" where
  "padStart s n c = replicate (n - length s) c @ s"

section \<open>The data model\<close>

text \<open>
  Modelled from the spec: the declarations of \<^verbatim>\<open>TransactionEvent\<close>
  (\<^verbatim>\<open>@/lib/transaction-service\<close>) and \<^verbatim>\<open>TimePeriod\<close> (\<^verbatim>\<open>@/types/dashboard\<close>) are not part
  of the sources at hand. An event has an optional \<^verbatim>\<open>timestamp\<close>, seconds since the epoch
  as a number or as a string, and optional decimal strings \<^verbatim>\<open>amountSC\<close> and \<^verbatim>\<open>amountBC\<close>;
  a period is one of \<^verbatim>\<open>"week"\<close>, \<^verbatim>\<open>"month"\<close>, \<^verbatim>\<open>"year"\<close>.
\<close>

datatype ts_value = TsAbsent | TsNumber number | TsString string

record TransactionEvent =
  timestamp :: ts_value
  amountSC :: "string option"
  amountBC :: "string option"

datatype TimePeriod = Week | Month | Year

record ChartDataPoint =
  date :: string
  revenue :: number
  transactions :: nat
  fees :: number

text \<open>\<^verbatim>\<open>!tx.timestamp\<close>: absent, the numbers \<open>0\<close> and \<open>NaN\<close>, and the empty string.\<close>

fun ts_falsy :: "ts_value \<Rightarrow> bool" where
  "ts_falsy TsAbsent = True"
| "ts_falsy (TsNumber n) = (\<not> num_truthy n)"
| "ts_falsy (TsString s) = (s = [])"

text \<open>\<^verbatim>\<open>Number(tx.timestamp)\<close>; \<^verbatim>\<open>Number(undefined)\<close> is \<open>NaN\<close>.\<close>

fun Number_of :: "ts_value \<Rightarrow> number" where
  "Number_of TsAbsent = NaN"
| "Number_of (TsNumber n) = n"
| "Number_of (TsString s) = StringToNumber s"

text \<open>\<^verbatim>\<open>amount || "0"\<close>: an absent or empty amount is replaced by \<^verbatim>\<open>"0"\<close>.\<close>

definition or_zero :: "string option \<Rightarrow> string" where
  "or_zero a = (case a of None \<Rightarrow> ''0'' | Some s \<Rightarrow> if s = [] then ''0'' else s)"

section \<open>The chart aggregation\<close>

text \<open>
  \<^verbatim>\<open>groupedData\<close> is an object used as a dictionary from labels to
  \<^verbatim>\<open>{ revenue, count }\<close>. \<^verbatim>\<open>Object.entries\<close> lists its keys in insertion order (no label
  is an array index), so it is an association list with new keys added at the end. The
  reference instant \<^verbatim>\<open>new Date()\<close> read by the source is the parameter \<open>now\<close>.
\<close>

type_synonym groupedData = "(string \<times> number \<times> nat) list"

text \<open>\<^verbatim>\<open>if (!groupedData[key]) groupedData[key] = { revenue: 0, count: 0 }\<close>\<close>

definition init_key :: "groupedData \<Rightarrow> string \<Rightarrow> groupedData" where
  "init_key g key = (if map_of g key = None then g @ [(key, Fin 0, 0)] else g)"

text \<open>\<^verbatim>\<open>if (groupedData[key]) { groupedData[key].revenue += amount; groupedData[key].count += 1 }\<close>\<close>

definition add_tx :: "groupedData \<Rightarrow> string \<Rightarrow> number \<Rightarrow> groupedData" where
  "add_tx g key amount = AList.map_entry key (\<lambda>(r, c). (num_add r amount, c + 1)) g"

definition monthsToShow :: nat where
  "monthsToShow = 12"

fun daysToShow :: "TimePeriod \<Rightarrow> nat" where
  "daysToShow Week = 7"
| "daysToShow Month = 30"
| "daysToShow Year = 12"

text \<open>\<^verbatim>\<open>date = new Date(now); date.setMonth(date.getMonth() - i)\<close>\<close>

definition months_back :: "Date \<Rightarrow> nat \<Rightarrow> Date" where
  "months_back now i = setMonth now (map_option (\<lambda>m. m - int i) (getMonth now))"

text \<open>\<^verbatim>\<open>date = new Date(now); date.setDate(date.getDate() - i)\<close>\<close>

definition days_back :: "Date \<Rightarrow> nat \<Rightarrow> Date" where
  "days_back now i = setDate now (map_option (\<lambda>d. d - int i) (getDate now))"

definition dateFormat :: "Date \<Rightarrow> string" where
  "dateFormat d = padStart (String_of (getDate d)) 2 CHR ''0'' @ ''/'' @
                  padStart (String_of (map_option (\<lambda>m. m + 1) (getMonth d))) 2 CHR ''0''"

text \<open>
  The two skeleton loops \<^verbatim>\<open>for (let i = n - 1; i >= 0; i--)\<close>: the counter of the
  recursion is \<open>i + 1\<close>.
\<close>

fun year_skeleton :: "Date \<Rightarrow> nat \<Rightarrow> groupedData \<Rightarrow> groupedData" where
  "year_skeleton now 0 g = g"
| "year_skeleton now (Suc i) g =
     year_skeleton now i (init_key g (toLocaleString_month_short (months_back now i)))"

fun day_skeleton :: "Date \<Rightarrow> nat \<Rightarrow> groupedData \<Rightarrow> groupedData" where
  "day_skeleton now 0 g = g"
| "day_skeleton now (Suc i) g = day_skeleton now i (init_key g (dateFormat (days_back now i)))"

text \<open>\<^verbatim>\<open>new Date(Number(tx.timestamp) * 1000)\<close>\<close>

definition txDate :: "TransactionEvent \<Rightarrow> Date" where
  "txDate tx = new_Date (num_mul (Number_of (timestamp tx)) (Fin 1000))"

text \<open>
  \<^verbatim>\<open>(now.getFullYear() - txDate.getFullYear()) * 12 + (now.getMonth() - txDate.getMonth())\<close>:
  whole numbers far below \<open>2^53\<close>, so the arithmetic is exact; \<open>None\<close> is \<open>NaN\<close>.
\<close>

definition monthDiff :: "Date \<Rightarrow> Date \<Rightarrow> int option" where
  "monthDiff now d =
     (case (getFullYear now, getFullYear d, getMonth now, getMonth d) of
        (Some ny, Some ty, Some nm, Some tm) \<Rightarrow> Some ((ny - ty) * 12 + (nm - tm))
      | _ \<Rightarrow> None)"

text \<open>\<^verbatim>\<open>Math.floor((now.getTime() - txDate.getTime()) / (1000 * 60 * 60 * 24))\<close>\<close>

definition daysDiff :: "Date \<Rightarrow> Date \<Rightarrow> number" where
  "daysDiff now d = Math_floor (num_div (num_sub (getTime now) (getTime d)) (Fin 86400000))"

text \<open>The body of \<^verbatim>\<open>transactions.forEach\<close> in the year branch.\<close>

definition year_tx :: "Date \<Rightarrow> groupedData \<Rightarrow> TransactionEvent \<Rightarrow> groupedData" where
  "year_tx now g tx =
     (if ts_falsy (timestamp tx) then g
      else case monthDiff now (txDate tx) of
             None \<Rightarrow> g
           | Some md \<Rightarrow>
               if 0 \<le> md \<and> md < int monthsToShow
               then add_tx g (toLocaleString_month_short (txDate tx)) (parseFloat (or_zero (amountSC tx)))
               else g)"

text \<open>The body of \<^verbatim>\<open>transactions.forEach\<close> in the week and month branch.\<close>

definition day_tx :: "nat \<Rightarrow> Date \<Rightarrow> groupedData \<Rightarrow> TransactionEvent \<Rightarrow> groupedData" where
  "day_tx n now g tx =
     (if ts_falsy (timestamp tx) then g
      else let dd = daysDiff now (txDate tx)
           in if num_le (Fin 0) dd \<and> num_less dd (Fin (of_nat n))
              then add_tx g (dateFormat (txDate tx)) (parseFloat (or_zero (amountSC tx)))
              else g)"

text \<open>The literal \<^verbatim>\<open>0.01\<close> is the binary64 value nearest to \<open>1/100\<close>.\<close>

definition lit_0_01 :: number where
  "lit_0_01 = to_double (1 / 100)"

text \<open>The final \<^verbatim>\<open>Object.entries(groupedData).map(...)\<close>.\<close>

definition to_point :: "string \<times> number \<times> nat \<Rightarrow> ChartDataPoint" where
  "to_point e = (case e of (k, r, c) \<Rightarrow>
     \<lparr> date = k,
       revenue = num_div (Math_round (num_mul r (Fin 100))) (Fin 100),
       transactions = c,
       fees = num_div (Math_round (num_mul (num_mul r lit_0_01) (Fin 100))) (Fin 100) \<rparr>)"

definition zero_point :: "string \<Rightarrow> ChartDataPoint" where
  "zero_point k = \<lparr> date = k, revenue = Fin 0, transactions = 0, fees = Fin 0 \<rparr>"

text \<open>The loop of \<^verbatim>\<open>getEmptyChartData\<close>, pushing one point for each \<open>i\<close>.\<close>

fun empty_loop :: "TimePeriod \<Rightarrow> Date \<Rightarrow> nat \<Rightarrow> ChartDataPoint list \<Rightarrow> ChartDataPoint list" where
  "empty_loop period now 0 data = data"
| "empty_loop period now (Suc i) data =
     empty_loop period now i
       (data @ [zero_point (if period = Year then toLocaleString_month_short (months_back now i)
                            else dateFormat (days_back now i))])"

definition getEmptyChartData :: "TimePeriod \<Rightarrow> Date \<Rightarrow> ChartDataPoint list" where
  "getEmptyChartData period now = empty_loop period now (daysToShow period) []"

text \<open>The dictionary after the skeleton loop and the \<^verbatim>\<open>forEach\<close> over the events.\<close>

definition grouped :: "TransactionEvent list \<Rightarrow> TimePeriod \<Rightarrow> Date \<Rightarrow> groupedData" where
  "grouped txs period now =
     (if period = Year
      then foldl (year_tx now) (year_skeleton now monthsToShow []) txs
      else foldl (day_tx (daysToShow period) now) (day_skeleton now (daysToShow period) []) txs)"

definition generateChartData :: "TransactionEvent list \<Rightarrow> TimePeriod \<Rightarrow> Date \<Rightarrow> ChartDataPoint list" where
  "generateChartData txs period now =
     (if length txs = 0 then getEmptyChartData period now
      else map to_point (grouped txs period now))"

section \<open>The overview statistics\<close>

text \<open>The statistics computed by \<^verbatim>\<open>DashboardOverview\<close> from the transaction list.\<close>

record OverviewStats =
  totalTransactions :: nat
  totalRevenue :: number
  successRate :: nat
  failedTransactions :: nat
  pendingTransactions :: nat

definition overviewStats :: "TransactionEvent list \<Rightarrow> OverviewStats" where
  "overviewStats txs =
     \<lparr> totalTransactions = length txs,
       totalRevenue = foldl (\<lambda>sum tx. num_add sum (parseFloat (or_zero (amountBC tx)))) (Fin 0) txs,
       successRate = (if 0 < length txs then 100 else 0),
       failedTransactions = 0,
       pendingTransactions = 0 \<rparr>"

section \<open>Derived notions\<close>

text \<open>
  What one event does to the dictionary: \<open>tx_key\<close> is the label under which the event is
  added if it gets past the timestamp and the window checks, \<open>amount\<close> the number added
  to the revenue. \<open>skeleton\<close> is the dictionary before the events are processed.
\<close>

definition amount :: "TransactionEvent \<Rightarrow> number" where
  "amount tx = parseFloat (or_zero (amountSC tx))"

definition year_key :: "Date \<Rightarrow> TransactionEvent \<Rightarrow> string option" where
  "year_key now tx =
     (if ts_falsy (timestamp tx) then None
      else case monthDiff now (txDate tx) of
             None \<Rightarrow> None
           | Some md \<Rightarrow> if 0 \<le> md \<and> md < int monthsToShow
                       then Some (toLocaleString_month_short (txDate tx)) else None)"

definition day_key :: "nat \<Rightarrow> Date \<Rightarrow> TransactionEvent \<Rightarrow> string option" where
  "day_key n now tx =
     (if ts_falsy (timestamp tx) then None
      else if num_le (Fin 0) (daysDiff now (txDate tx)) \<and>
              num_less (daysDiff now (txDate tx)) (Fin (of_nat n))
           then Some (dateFormat (txDate tx)) else None)"

definition tx_key :: "TimePeriod \<Rightarrow> Date \<Rightarrow> TransactionEvent \<Rightarrow> string option" where
  "tx_key period now tx =
     (if period = Year then year_key now tx else day_key (daysToShow period) now tx)"

definition skeleton :: "TimePeriod \<Rightarrow> Date \<Rightarrow> groupedData" where
  "skeleton period now =
     (if period = Year then year_skeleton now monthsToShow []
      else day_skeleton now (daysToShow period) [])"

text \<open>The events of a list that are added under the label \<open>k\<close>, in their order.\<close>

definition hits :: "TimePeriod \<Rightarrow> Date \<Rightarrow> string \<Rightarrow> TransactionEvent list \<Rightarrow> TransactionEvent list" where
  "hits period now k txs = filter (\<lambda>tx. tx_key period now tx = Some k) txs"

text \<open>The two roundings of the final step, as functions of the accumulated revenue.\<close>

definition round2 :: "number \<Rightarrow> number" where
  "round2 r = num_div (Math_round (num_mul r (Fin 100))) (Fin 100)"

definition fee_of :: "number \<Rightarrow> number" where
  "fee_of r = num_div (Math_round (num_mul (num_mul r lit_0_01) (Fin 100))) (Fin 100)"

text \<open>The raw accumulated revenue of the bucket \<open>k\<close>: the amounts added in event order.\<close>

definition total :: "TimePeriod \<Rightarrow> Date \<Rightarrow> string \<Rightarrow> TransactionEvent list \<Rightarrow> number" where
  "total period now k txs = foldl num_add (Fin 0) (map amount (hits period now k txs))"

text \<open>
  The label computed at step \<open>i\<close> of a skeleton loop, and the labels of all steps in loop
  order, from \<open>i = n - 1\<close> (the oldest) down to \<open>i = 0\<close> (the bucket of \<open>now\<close>).
\<close>

definition label :: "TimePeriod \<Rightarrow> Date \<Rightarrow> nat \<Rightarrow> string" where
  "label period now i =
     (if period = Year then toLocaleString_month_short (months_back now i)
      else dateFormat (days_back now i))"

definition labels :: "TimePeriod \<Rightarrow> Date \<Rightarrow> string list" where
  "labels period now = map (label period now) (rev [0..<daysToShow period])"

text \<open>The window test of the \<^verbatim>\<open>forEach\<close> body, for the date of an event.\<close>

definition in_window :: "TimePeriod \<Rightarrow> Date \<Rightarrow> Date \<Rightarrow> bool" where
  "in_window period now d =
     (if period = Year
      then (case monthDiff now d of None \<Rightarrow> False | Some md \<Rightarrow> 0 \<le> md \<and> md < int monthsToShow)
      else num_le (Fin 0) (daysDiff now d) \<and>
           num_less (daysDiff now d) (Fin (of_nat (daysToShow period))))"

text \<open>
  Shorthand for the concrete inputs used below: the reference instant
  2024-03-31T12:00:00Z, and an event given by its timestamp and its \<^verbatim>\<open>amountSC\<close>.
\<close>

abbreviation (input) noon_31_Mar_2024 :: Date where
  "noon_31_Mar_2024 \<equiv> Date 1711886400000"

abbreviation (input) event :: "ts_value \<Rightarrow> string option \<Rightarrow> TransactionEvent" where
  "event t a \<equiv> \<lparr>timestamp = t, amountSC = a, amountBC = None\<rparr>"

section \<open>Rounding to binary64: evaluation\<close>

lemma pow2_powi: "pow2 e = 2 powi e"
  by (simp add: pow2_def power_int_def power_one_over inverse_eq_divide)

lemma pow2_pos: "0 < pow2 e"
  by (simp add: pow2_def)

lemma pow2_mono: "a \<le> b \<Longrightarrow> pow2 a \<le> pow2 b"
  by (simp add: pow2_powi power_int_increasing)

lemma pow2_diff: "pow2 (a - b) = pow2 a / pow2 b"
  by (simp add: pow2_powi power_int_diff)

lemma bitlen_pow2_bounds:
  assumes "0 < p"
  shows "pow2 (bitlen p - 1) \<le> of_int p" and "of_int p < pow2 (bitlen p)"
proof -
  from assms have b: "1 \<le> bitlen p" by (auto simp: bitlen_alt_def)
  from bitlen_bounds [OF assms]
  have lo: "2 ^ nat (bitlen p - 1) \<le> p" and hi: "p < 2 ^ nat (bitlen p)"
    by auto
  from lo have "(of_int (2 ^ nat (bitlen p - 1)) :: rat) \<le> of_int p"
    by (simp only: of_int_le_iff)
  with b show "pow2 (bitlen p - 1) \<le> of_int p" by (simp add: pow2_def)
  from hi have "(of_int p :: rat) < of_int (2 ^ nat (bitlen p))"
    by (simp only: of_int_less_iff)
  with b show "of_int p < pow2 (bitlen p)" by (simp add: pow2_def)
qed

lemma expo_bounds:
  assumes "0 < x"
  shows "pow2 (expo x) \<le> x \<and> x < pow2 (expo x + 1)"
proof -
  obtain p q where pq: "quotient_of x = (p, q)" by (cases "quotient_of x")
  then have q: "0 < q" and x: "x = of_int p / of_int q"
    by (auto simp: quotient_of_denom_pos quotient_of_div)
  with assms have p: "0 < p" by (simp add: zero_less_divide_iff)
  define k where "k = bitlen p - bitlen q"
  have "x < pow2 (bitlen p) / pow2 (bitlen q - 1)"
    unfolding x using bitlen_pow2_bounds [OF p] bitlen_pow2_bounds [OF q] p q
    by (intro frac_less) (auto simp: pow2_pos)
  also have "\<dots> = pow2 (k + 1)"
    by (simp add: k_def pow2_diff [symmetric] algebra_simps)
  finally have up: "x < pow2 (k + 1)" .
  have e: "expo x = (if pow2 k \<le> x then k else k - 1)"
    by (simp add: expo_def pq k_def Let_def)
  show ?thesis
  proof (cases "pow2 k \<le> x")
    case True
    with e up show ?thesis by simp
  next
    case False
    have "pow2 (bitlen p - 1) / pow2 (bitlen q) \<le> x"
      unfolding x using bitlen_pow2_bounds [OF p] bitlen_pow2_bounds [OF q] p q
      by (intro frac_le) (auto simp: pow2_pos less_imp_le)
    moreover have "pow2 (bitlen p - 1) / pow2 (bitlen q) = pow2 (k - 1)"
      by (simp add: k_def pow2_diff [symmetric] algebra_simps)
    ultimately show ?thesis using False e by simp
  qed
qed

lemma expo_eq:
  assumes "0 < x" and "pow2 e \<le> x" and "x < pow2 (e + 1)"
  shows "expo x = e"
proof (rule ccontr)
  assume ne: "expo x \<noteq> e"
  from expo_bounds [OF assms(1)]
  have b: "pow2 (expo x) \<le> x" "x < pow2 (expo x + 1)" by auto
  show False
  proof (cases "expo x < e")
    case True
    then have "pow2 (expo x + 1) \<le> pow2 e" by (intro pow2_mono) simp
    with b assms show False by simp
  next
    case False
    with ne have "pow2 (e + 1) \<le> pow2 (expo x)" by (intro pow2_mono) simp
    with b assms show False by simp
  qed
qed

text \<open>
  The value of \<open>to_double\<close> at a positive rational, given its binary exponent: the side
  conditions are closed arithmetic facts at a concrete input.
\<close>

lemma to_double_pos:
  assumes "0 < x" and "pow2 e \<le> x" and "x < pow2 (e + 1)" and "- 1022 \<le> e"
    and "of_int (round_half_even (x / pow2 (e - 52))) * pow2 (e - 52) = y"
    and "y < pow2 1024"
  shows "to_double x = Fin y"
proof -
  have e: "expo x = e" using assms(1-3) by (rule expo_eq)
  from assms(1) have ax: "\<bar>x\<bar> = x" and nz: "x \<noteq> 0" by simp_all
  from assms(4) have m: "max e (- 1022) = e" by simp
  from assms(6) have ny: "\<not> pow2 1024 \<le> y" by simp
  show ?thesis
    unfolding to_double_def Let_def ax e m assms(5)
    using nz ny assms(1) by simp
qed

lemma to_double_0: "to_double 0 = Fin 0"
  by (simp add: to_double_def)

lemma floor_rat_numeral_div: "\<lfloor>numeral a / numeral b :: rat\<rfloor> = numeral a div numeral b"
  by (metis floor_divide_of_int_eq of_int_numeral)

lemma floor_rat_one_div: "\<lfloor>1 / numeral b :: rat\<rfloor> = 1 div numeral b"
  by (metis floor_divide_of_int_eq of_int_1 of_int_numeral)

lemmas dbl_eval = pow2_def round_half_even_def Let_def floor_rat_numeral_div floor_rat_one_div

section \<open>The dictionary\<close>

lemma map_fst_init_key: "map fst (init_key g k) = (if k \<in> set (map fst g) then map fst g else map fst g @ [k])"
  by (auto simp: init_key_def map_of_eq_None_iff)

lemma distinct_init_key: "distinct (map fst g) \<Longrightarrow> distinct (map fst (init_key g k))"
  by (simp add: map_fst_init_key)

lemma zero_init_key: "\<forall>e\<in>set g. snd e = (Fin 0, 0) \<Longrightarrow> \<forall>e\<in>set (init_key g k). snd e = (Fin 0, 0)"
  by (auto simp: init_key_def)

lemma day_skeleton_inv:
  "distinct (map fst g) \<Longrightarrow> \<forall>e\<in>set g. snd e = (Fin 0, 0) \<Longrightarrow>
   distinct (map fst (day_skeleton now n g)) \<and> (\<forall>e\<in>set (day_skeleton now n g). snd e = (Fin 0, 0))"
proof (induction n arbitrary: g)
  case 0
  then show ?case by simp
next
  case (Suc n)
  show ?case
    unfolding day_skeleton.simps
    by (rule Suc.IH [OF distinct_init_key [OF Suc.prems(1)] zero_init_key [OF Suc.prems(2)]])
qed

lemma year_skeleton_inv:
  "distinct (map fst g) \<Longrightarrow> \<forall>e\<in>set g. snd e = (Fin 0, 0) \<Longrightarrow>
   distinct (map fst (year_skeleton now n g)) \<and> (\<forall>e\<in>set (year_skeleton now n g). snd e = (Fin 0, 0))"
proof (induction n arbitrary: g)
  case 0
  then show ?case by simp
next
  case (Suc n)
  show ?case
    unfolding year_skeleton.simps
    by (rule Suc.IH [OF distinct_init_key [OF Suc.prems(1)] zero_init_key [OF Suc.prems(2)]])
qed

lemma skeleton_inv:
  "distinct (map fst (skeleton period now)) \<and> (\<forall>e\<in>set (skeleton period now). snd e = (Fin 0, 0))"
proof (cases "period = Year")
  case True
  then have eq: "skeleton period now = year_skeleton now monthsToShow []"
    by (simp only: skeleton_def if_True simp_thms)
  show ?thesis unfolding eq by (rule year_skeleton_inv) simp_all
next
  case False
  then have eq: "skeleton period now = day_skeleton now (daysToShow period) []"
    by (simp only: skeleton_def if_False simp_thms)
  show ?thesis unfolding eq by (rule day_skeleton_inv) simp_all
qed

lemma skeleton_distinct: "distinct (map fst (skeleton period now))"
  using skeleton_inv by blast

lemma skeleton_zero: "e \<in> set (skeleton period now) \<Longrightarrow> snd e = (Fin 0, 0)"
  using skeleton_inv by blast

lemma map_entry_distinct:
  "distinct (map fst g) \<Longrightarrow>
   AList.map_entry k f g = map (\<lambda>e. if fst e = k then (fst e, f (snd e)) else e) g"
proof (induction g)
  case Nil
  then show ?case by simp
next
  case (Cons p ps)
  show ?case
  proof (cases "fst p = k")
    case True
    with Cons.prems have "k \<notin> fst ` set ps" by simp
    then have "\<forall>e\<in>set ps. fst e \<noteq> k" by blast
    then have "map (\<lambda>e. if fst e = k then (fst e, f (snd e)) else e) ps = ps"
      by (induction ps) auto
    with True show ?thesis by (cases p) simp
  next
    case False
    with Cons show ?thesis by (cases p) simp
  qed
qed

lemma map_fst_add_tx: "map fst (add_tx g k a) = map fst g"
  by (induction g) (auto simp: add_tx_def)

lemma year_tx_key:
  "year_tx now g tx = (case year_key now tx of None \<Rightarrow> g | Some k \<Rightarrow> add_tx g k (amount tx))"
  by (simp add: year_tx_def year_key_def amount_def split: option.splits)

lemma day_tx_key:
  "day_tx n now g tx = (case day_key n now tx of None \<Rightarrow> g | Some k \<Rightarrow> add_tx g k (amount tx))"
  by (simp add: day_tx_def day_key_def amount_def Let_def)

text \<open>The dictionary after a run of steps, entry by entry.\<close>

lemma foldl_steps:
  assumes step: "\<And>g tx. step g tx = (case key tx of None \<Rightarrow> g | Some k \<Rightarrow> add_tx g k (amount tx))"
  shows "distinct (map fst g) \<Longrightarrow>
     foldl step g txs =
       map (\<lambda>e. (fst e,
                 foldl num_add (fst (snd e)) (map amount (filter (\<lambda>tx. key tx = Some (fst e)) txs)),
                 snd (snd e) + length (filter (\<lambda>tx. key tx = Some (fst e)) txs))) g"
proof (induction txs arbitrary: g)
  case Nil
  then show ?case by (simp add: map_idI)
next
  case (Cons tx txs)
  show ?case
  proof (cases "key tx")
    case None
    with Cons show ?thesis by (simp add: step)
  next
    case (Some k)
    have d: "distinct (map fst (add_tx g k (amount tx)))"
      using Cons.prems by (simp add: map_fst_add_tx)
    have a: "add_tx g k (amount tx) =
        map (\<lambda>e. if fst e = k then (fst e, (\<lambda>(r, c). (num_add r (amount tx), c + 1)) (snd e)) else e) g"
      unfolding add_tx_def using Cons.prems by (rule map_entry_distinct)
    have "foldl step g (tx # txs) = foldl step (add_tx g k (amount tx)) txs"
      by (simp add: step Some)
    also note Cons.IH [OF d]
    also have "map (\<lambda>e. (fst e,
                 foldl num_add (fst (snd e)) (map amount (filter (\<lambda>tx. key tx = Some (fst e)) txs)),
                 snd (snd e) + length (filter (\<lambda>tx. key tx = Some (fst e)) txs)))
          (add_tx g k (amount tx)) =
        map (\<lambda>e. (fst e,
                 foldl num_add (fst (snd e)) (map amount (filter (\<lambda>tx. key tx = Some (fst e)) (tx # txs))),
                 snd (snd e) + length (filter (\<lambda>tx. key tx = Some (fst e)) (tx # txs)))) g"
      unfolding a map_map
    proof (rule map_cong [OF refl])
      fix e assume "e \<in> set g"
      obtain k' r c where e: "e = (k', r, c)" by (cases e) auto
      show "((\<lambda>e. (fst e,
                 foldl num_add (fst (snd e)) (map amount (filter (\<lambda>tx. key tx = Some (fst e)) txs)),
                 snd (snd e) + length (filter (\<lambda>tx. key tx = Some (fst e)) txs))) \<circ>
             (\<lambda>e. if fst e = k then (fst e, (\<lambda>(r, c). (num_add r (amount tx), c + 1)) (snd e)) else e)) e =
            (fst e,
                 foldl num_add (fst (snd e)) (map amount (filter (\<lambda>tx. key tx = Some (fst e)) (tx # txs))),
                 snd (snd e) + length (filter (\<lambda>tx. key tx = Some (fst e)) (tx # txs)))"
        by (cases "k' = k") (simp_all add: e Some)
    qed
    finally show ?thesis .
  qed
qed

lemma grouped_entries:
  "grouped txs period now =
     map (\<lambda>k. (k, foldl num_add (Fin 0) (map amount (hits period now k txs)),
                length (hits period now k txs)))
         (map fst (skeleton period now))"
proof -
  have "grouped txs period now =
      foldl (\<lambda>g tx. case tx_key period now tx of None \<Rightarrow> g | Some k \<Rightarrow> add_tx g k (amount tx))
        (skeleton period now) txs"
  proof (cases "period = Year")
    case True
    have "year_tx now = (\<lambda>g tx. case year_key now tx of None \<Rightarrow> g | Some k \<Rightarrow> add_tx g k (amount tx))"
      by (intro ext) (rule year_tx_key)
    with True show ?thesis by (simp only: grouped_def skeleton_def tx_key_def if_True simp_thms)
  next
    case False
    have "day_tx n now = (\<lambda>g tx. case day_key n now tx of None \<Rightarrow> g | Some k \<Rightarrow> add_tx g k (amount tx))" for n
      by (intro ext) (rule day_tx_key)
    with False show ?thesis by (simp only: grouped_def skeleton_def tx_key_def if_False simp_thms)
  qed
  also have "\<dots> = map (\<lambda>e. (fst e,
                 foldl num_add (fst (snd e)) (map amount (hits period now (fst e) txs)),
                 snd (snd e) + length (hits period now (fst e) txs))) (skeleton period now)"
    unfolding hits_def by (rule foldl_steps [OF refl skeleton_distinct])
  also have "\<dots> = map (\<lambda>k. (k, foldl num_add (Fin 0) (map amount (hits period now k txs)),
                length (hits period now k txs))) (map fst (skeleton period now))"
    unfolding map_map
  proof (rule map_cong [OF refl])
    fix e assume "e \<in> set (skeleton period now)"
    then have "snd e = (Fin 0, 0)" by (rule skeleton_zero)
    then show "(fst e, foldl num_add (fst (snd e)) (map amount (hits period now (fst e) txs)),
                 snd (snd e) + length (hits period now (fst e) txs)) =
          ((\<lambda>k. (k, foldl num_add (Fin 0) (map amount (hits period now k txs)),
                length (hits period now k txs))) \<circ> fst) e"
      by simp
  qed
  finally show ?thesis .
qed

section \<open>Events that are skipped\<close>

lemma hits_skip:
  "tx_key period now tx = None \<Longrightarrow>
   hits period now k (pre @ tx # post) = hits period now k (pre @ post)"
  by (simp add: hits_def)

lemma grouped_skip:
  assumes "tx_key period now tx = None"
  shows "grouped (pre @ tx # post) period now = grouped (pre @ post) period now"
  unfolding grouped_entries by (simp only: hits_skip [OF assms])

lemma falsy_tx_key: "ts_falsy (timestamp tx) \<Longrightarrow> tx_key period now tx = None"
  by (simp add: tx_key_def year_key_def day_key_def)

lemma invalid_not_in_window: "\<not> in_window period now Invalid_Date"
  by (cases now) (simp_all add: in_window_def monthDiff_def daysDiff_def num_sub_def split: option.splits)

lemma tx_key_in_window:
  "tx_key period now tx =
     (if ts_falsy (timestamp tx) \<or> \<not> in_window period now (txDate tx) then None
      else Some (if period = Year then toLocaleString_month_short (txDate tx)
                 else dateFormat (txDate tx)))"
  by (simp add: tx_key_def year_key_def day_key_def in_window_def split: option.splits)

lemma grouped_replace:
  assumes "tx_key period now tx = tx_key period now tx'" and "amount tx = amount tx'"
  shows "grouped (pre @ tx # post) period now = grouped (pre @ tx' # post) period now"
proof -
  have a: "map amount (hits period now k (pre @ tx # post)) =
           map amount (hits period now k (pre @ tx' # post))" for k
    by (simp add: hits_def assms)
  have "length (hits period now k (pre @ tx # post)) = length (hits period now k (pre @ tx' # post))" for k
    using a [of k] by (metis length_map)
  with a show ?thesis unfolding grouped_entries by simp
qed

section \<open>The returned series\<close>

lemma empty_loop_eq:
  "empty_loop period now n data = data @ map (\<lambda>i. zero_point (label period now i)) (rev [0..<n])"
  by (induction n arbitrary: data) (simp_all add: label_def)

lemma day_skeleton_fold:
  "day_skeleton now n g = foldl init_key g (map (\<lambda>i. dateFormat (days_back now i)) (rev [0..<n]))"
  by (induction n arbitrary: g) simp_all

lemma year_skeleton_fold:
  "year_skeleton now n g =
     foldl init_key g (map (\<lambda>i. toLocaleString_month_short (months_back now i)) (rev [0..<n]))"
  by (induction n arbitrary: g) simp_all

lemma keys_foldl_init_key: "map fst (foldl init_key [] ks) = rev (remdups (rev ks))"
proof (induction ks rule: rev_induct)
  case Nil
  then show ?case by simp
next
  case (snoc k ks)
  have "set (rev (remdups (rev ks))) = set ks" by simp
  with snoc show ?case by (simp add: map_fst_init_key)
qed

lemma skeleton_labels: "skeleton period now = foldl init_key [] (labels period now)"
proof (cases "period = Year")
  case True
  have "label Year now = (\<lambda>i. toLocaleString_month_short (months_back now i))"
    by (intro ext) (simp add: label_def)
  with True show ?thesis
    by (simp only: skeleton_def labels_def year_skeleton_fold monthsToShow_def if_True simp_thms daysToShow.simps)
next
  case False
  then have "label period now = (\<lambda>i. dateFormat (days_back now i))"
    by (intro ext) (simp add: label_def)
  with False show ?thesis
    by (simp only: skeleton_def labels_def day_skeleton_fold if_False simp_thms)
qed

text \<open>The labels of the dictionary: the loop's labels, a repeated one kept where it first came.\<close>

lemma skeleton_keys: "map fst (skeleton period now) = rev (remdups (rev (labels period now)))"
  by (simp only: skeleton_labels keys_foldl_init_key)

lemma length_labels: "length (labels period now) = daysToShow period"
  by (simp add: labels_def)

lemma labels_nonempty: "labels period now \<noteq> []"
  using length_labels [of period now] by (cases period) auto

lemma empty_series: "generateChartData [] period now = map zero_point (labels period now)"
  by (simp add: generateChartData_def getEmptyChartData_def empty_loop_eq labels_def)

lemma to_point_eq:
  "to_point (k, r, c) = \<lparr>date = k, revenue = round2 r, transactions = c, fees = fee_of r\<rparr>"
  by (simp add: to_point_def round2_def fee_of_def)

lemma series_eq:
  assumes "txs \<noteq> []"
  shows "generateChartData txs period now =
     map (\<lambda>k. \<lparr>date = k, revenue = round2 (total period now k txs),
                transactions = length (hits period now k txs),
                fees = fee_of (total period now k txs)\<rparr>)
         (rev (remdups (rev (labels period now))))"
  using assms unfolding generateChartData_def grouped_entries skeleton_keys
  by (simp add: to_point_eq total_def comp_def)

lemma series_dates:
  "txs \<noteq> [] \<Longrightarrow> map date (generateChartData txs period now) = rev (remdups (rev (labels period now)))"
  by (simp add: series_eq comp_def)


lemma series_nonempty: "generateChartData txs period now \<noteq> []"
proof (cases "txs = []")
  case True
  then show ?thesis using labels_nonempty [of period now] by (simp add: empty_series)
next
  case False
  have "rev (remdups (rev (labels period now))) \<noteq> []"
    using labels_nonempty [of period now] by simp
  with False show ?thesis by (simp add: series_eq)
qed


text \<open>The series for the empty event list: one zero bucket for each step of the loop.\<close>

lemma empty_series_zero:
  "length (generateChartData [] period now) = daysToShow period \<and>
   (\<forall>b\<in>set (generateChartData [] period now).
      revenue b = Fin 0 \<and> transactions b = 0 \<and> fees b = Fin 0)"
  by (auto simp: empty_series length_labels zero_point_def)


text \<open>The oldest bucket comes first, and an event processed last changes one entry at most.\<close>

lemma foldl_init_key_Cons: "\<exists>g'. foldl init_key (e # g) ks = e # g'"
  by (induction ks arbitrary: g) (auto simp: init_key_def)

lemma skeleton_oldest:
  "\<exists>g'. skeleton period now = (label period now (daysToShow period - 1), Fin 0, 0) # g'"
proof -
  obtain n where n: "daysToShow period = Suc n" by (cases period) (auto intro: that [of 6] that [of 29] that [of 11])
  have "labels period now = label period now n # map (label period now) (rev [0..<n])"
    by (simp add: labels_def n)
  then have "skeleton period now =
      foldl init_key [(label period now n, Fin 0, 0)] (map (label period now) (rev [0..<n]))"
    by (simp add: skeleton_labels init_key_def)
  with foldl_init_key_Cons [of "(label period now n, Fin 0, 0)" "[]"] n show ?thesis by auto
qed

lemma hits_snoc:
  "hits period now k (txs @ [tx]) =
     (if tx_key period now tx = Some k then hits period now k txs @ [tx] else hits period now k txs)"
  by (simp add: hits_def)

lemma grouped_snoc_miss:
  assumes "tx_key period now tx = Some kb" and "kb \<notin> set (labels period now)"
  shows "grouped (txs @ [tx]) period now = grouped txs period now"
proof -
  have "k \<in> set (map fst (skeleton period now)) \<Longrightarrow> hits period now k (txs @ [tx]) = hits period now k txs" for k
    using assms by (auto simp: hits_snoc skeleton_keys)
  then show ?thesis unfolding grouped_entries by (simp cong: map_cong)
qed

lemma grouped_snoc_oldest:
  assumes "tx_key period now tx = Some (label period now (daysToShow period - 1))"
  shows "grouped (txs @ [tx]) period now =
     (case grouped txs period now of [] \<Rightarrow> []
      | (k, r, c) # rest \<Rightarrow> (k, num_add r (amount tx), c + 1) # rest)"
proof -
  let ?k0 = "label period now (daysToShow period - 1)"
  obtain g' where g: "skeleton period now = (?k0, Fin 0, 0) # g'"
    using skeleton_oldest by blast
  have "distinct (map fst (skeleton period now))" by (rule skeleton_distinct)
  with g have notin: "?k0 \<notin> set (map fst g')" by simp
  have "k \<in> set (map fst g') \<Longrightarrow> hits period now k (txs @ [tx]) = hits period now k txs" for k
    using assms notin by (auto simp: hits_snoc)
  then show ?thesis
    unfolding grouped_entries g using assms by (simp add: hits_snoc cong: map_cong)
qed



section \<open>Evaluation at concrete inputs\<close>

lemmas cal_eval = msPerDay_def DayFromYear_def InLeapYear_def YearFromDay_def month_start_def
  MonthFromDay_def DateFromDay_def MakeDay_def MakeDate_def TimeClip_def Let_def

lemmas fmt_eval = dateFormat_def String_of_def padStart_def toLocaleString_month_short_def
  month_short_def days_back_def months_back_def

lemma round_half_even_of_int: "round_half_even (of_int m) = m"
  by (simp add: round_half_even_def)

text \<open>Whole numbers below \<open>2^53\<close> are binary64 values.\<close>

lemma to_double_int:
  assumes "0 < n" and "n < 2 ^ 53"
  shows "to_double (of_int n) = Fin (of_int n)"
proof -
  let ?x = "of_int n :: rat"
  define e where "e = expo ?x"
  from assms(1) have x: "0 < ?x" by simp
  from expo_bounds [OF x] have lo: "pow2 e \<le> ?x" and hi: "?x < pow2 (e + 1)"
    by (simp_all add: e_def)
  have e0: "0 \<le> e"
  proof (rule ccontr)
    assume "\<not> 0 \<le> e"
    then have "pow2 (e + 1) \<le> pow2 0" by (intro pow2_mono) simp
    with hi have "?x < 1" by (simp add: pow2_def)
    with assms(1) show False by simp
  qed
  have e52: "e \<le> 52"
  proof (rule ccontr)
    assume "\<not> e \<le> 52"
    then have "pow2 53 \<le> pow2 e" by (intro pow2_mono) simp
    with lo have "(2 :: rat) ^ 53 \<le> ?x" by (simp add: pow2_def)
    moreover from assms(2) have "?x < of_int (2 ^ 53)" by (simp only: of_int_less_iff)
    ultimately show False by simp
  qed
  have p: "pow2 (e - 52) = 1 / 2 ^ nat (52 - e)"
    using e52 by (cases "e = 52") (simp_all add: pow2_def)
  have "?x / pow2 (e - 52) = of_int (n * 2 ^ nat (52 - e))"
    by (simp add: p)
  then have r: "round_half_even (?x / pow2 (e - 52)) = n * 2 ^ nat (52 - e)"
    by (simp only: round_half_even_of_int)
  have y: "of_int (round_half_even (?x / pow2 (e - 52))) * pow2 (e - 52) = ?x"
    unfolding r by (simp add: p)
  from assms(2) have "?x < of_int (2 ^ 53)" by (simp only: of_int_less_iff)
  also have "\<dots> \<le> pow2 1024" by (simp add: pow2_def)
  finally have "?x < pow2 1024" .
  with x lo hi e0 y show ?thesis by (intro to_double_pos [where e = e]) simp_all
qed

lemma to_double_numeral:
  "numeral k < (9007199254740992 :: int) \<Longrightarrow> to_double (numeral k) = Fin (numeral k)"
  using to_double_int [of "numeral k"] by simp

lemma to_double_1: "to_double 1 = Fin 1"
  using to_double_int [of 1] by simp

text \<open>
  The binary64 values of the rationals that occur in the concrete runs below, each
  checked against the definition of \<open>to_double\<close> at its binary exponent.
\<close>

lemma dbl_1: "to_double (1 / 100) = Fin (5764607523034235 / 576460752303423488)"
  by (rule to_double_pos [where e = "- 7"]) (simp_all add: dbl_eval)

lemma dbl_2: "to_double (187 / 125) = Fin (3368692521273131 / 2251799813685248)"
  by (rule to_double_pos [where e = 0]) (simp_all add: dbl_eval)

lemma dbl_3: "to_double (3368692521273131 / 2251799813685248) = Fin (3368692521273131 / 2251799813685248)"
  by (rule to_double_pos [where e = 0]) (simp_all add: dbl_eval)

lemma dbl_4: "to_double (84217313031828275 / 562949953421312) = Fin (5263582064489267 / 35184372088832)"
  by (rule to_double_pos [where e = 7]) (simp_all add: dbl_eval)

lemma dbl_5: "to_double (3 / 2) = Fin (3 / 2)"
  by (rule to_double_pos [where e = 0]) (simp_all add: dbl_eval)

lemma dbl_6: "to_double (19419190250920255688830298639785 / 1298074214633706907132624082305024) = Fin (538990803403701 / 36028797018963968)"
  by (rule to_double_pos [where e = "- 7"]) (simp_all add: dbl_eval)

lemma dbl_7: "to_double (13474770085092525 / 9007199254740992) = Fin (3368692521273131 / 2251799813685248)"
  by (rule to_double_pos [where e = 0]) (simp_all add: dbl_eval)

lemma dbl_8: "to_double (17293822569102705 / 1152921504606846976) = Fin (1080863910568919 / 72057594037927936)"
  by (rule to_double_pos [where e = "- 7"]) (simp_all add: dbl_eval)

lemma dbl_9: "to_double (27021597764222975 / 18014398509481984) = Fin (3 / 2)"
  by (rule to_double_pos [where e = 0]) (simp_all add: dbl_eval)

lemma dbl_10: "to_double (1 / 50) = Fin (5764607523034235 / 288230376151711744)"
  by (rule to_double_pos [where e = "- 6"]) (simp_all add: dbl_eval)

lemma dbl_11: "to_double (10000000000000000) = Fin (10000000000000000)"
  by (rule to_double_pos [where e = 53]) (simp_all add: dbl_eval)

lemma dbl_12: "to_double (10000000000000001) = Fin (10000000000000000)"
  by (rule to_double_pos [where e = 53]) (simp_all add: dbl_eval)

lemma dbl_13: "to_double (1000000000000000000) = Fin (1000000000000000000)"
  by (rule to_double_pos [where e = 59]) (simp_all add: dbl_eval)

lemma dbl_14: "to_double (10000000000000002) = Fin (10000000000000002)"
  by (rule to_double_pos [where e = 53]) (simp_all add: dbl_eval)

lemma dbl_15: "to_double (1000000000000000200) = Fin (1000000000000000256)"
  by (rule to_double_pos [where e = 59]) (simp_all add: dbl_eval)

lemma dbl_16: "to_double (250000000000000064 / 25) = Fin (10000000000000002)"
  by (rule to_double_pos [where e = 53]) (simp_all add: dbl_eval)

lemma dbl_17: "to_double (83 / 12) = Fin (7787474355661483 / 1125899906842624)"
  by (rule to_double_pos [where e = 2]) (simp_all add: dbl_eval)

lemmas dbl_vals = dbl_1 dbl_2 dbl_3 dbl_4 dbl_5 dbl_6 dbl_7 dbl_8 dbl_9 dbl_10 dbl_11 dbl_12
  dbl_13 dbl_14 dbl_15 dbl_16 dbl_17 to_double_numeral to_double_1 to_double_0

lemmas floor_eval = floor_rat_numeral_div floor_rat_one_div

lemmas parse_eval = parseFloat_def parse_signed_def parse_unsigned_def parse_exponent_def
  is_ws_def is_digit_base_def hex_val_def decimal_value_def digits_val_def pow10_def
  StringToNumber_def trim_def non_decimal_literal_def

lemma lit_0_01_val: "lit_0_01 = Fin (5764607523034235 / 576460752303423488)"
  by (simp add: lit_0_01_def dbl_1)

lemma round2_0: "round2 (Fin 0) = Fin 0"
  by (simp add: round2_def to_double_0 floor_eval)

lemma fee_of_0: "fee_of (Fin 0) = Fin 0"
  by (simp add: fee_of_def lit_0_01_val to_double_0 floor_eval)

lemma foldl_add_zero: "\<forall>a\<in>set as. a = Fin 0 \<Longrightarrow> foldl num_add (Fin 0) as = Fin 0"
  by (induction as) (simp_all add: to_double_0)

lemma parseFloat_0: "parseFloat ''0'' = Fin 0"
  by (simp add: parse_eval to_double_0)

lemma parseFloat_abc: "parseFloat ''abc'' = NaN"
  by (simp add: parse_eval)



lemma parseFloat_1496: "parseFloat ''1.496'' = Fin (3368692521273131 / 2251799813685248)"
  by (simp add: parse_eval dbl_vals)


lemma StringToNumber_abc: "StringToNumber ''abc'' = NaN"
  by (simp add: parse_eval)

lemma StringToNumber_noon: "StringToNumber ''1711886400'' = Fin 1711886400"
  by (simp add: parse_eval dbl_vals)

lemma StringToNumber_nbsp: "StringToNumber (CHR 0xA0 # ''1711886400'') = Fin 1711886400"
  by (simp add: parse_eval dbl_vals)

lemma labels_week_31_Mar:
  "labels Week noon_31_Mar_2024 =
     [''25/03'', ''26/03'', ''27/03'', ''28/03'', ''29/03'', ''30/03'', ''31/03'']"
  by code_simp

lemma labels_year_31_Mar:
  "labels Year noon_31_Mar_2024 =
     [''May'', ''May'', ''Jul'', ''Jul'', ''Aug'', ''Oct'', ''Oct'', ''Dec'', ''Dec'', ''Jan'',
      ''Mar'', ''Mar'']"
  by code_simp

lemma dateFormat_noon: "dateFormat noon_31_Mar_2024 = ''31/03''"
  by (simp add: cal_eval fmt_eval)

lemma dateFormat_24_Mar: "dateFormat (Date 1711288800000) = ''24/03''"
  by (simp add: cal_eval fmt_eval)

lemma dateFormat_25_Mar: "dateFormat (Date 1711368000000) = ''25/03''"
  by (simp add: cal_eval fmt_eval)

lemma txDate_number:
  "numeral k * 1000 < (9007199254740992 :: int) \<Longrightarrow>
   txDate (event (TsNumber (Fin (numeral k))) a) = new_Date (Fin (numeral k * 1000))"
  using to_double_int [of "numeral k * 1000"] by (simp add: txDate_def)

lemma txDate_noon: "txDate (event (TsNumber (Fin 1711886400)) a) = noon_31_Mar_2024"
  by (simp add: txDate_number)

lemma txDate_noon_string: "txDate (event (TsString ''1711886400'') a) = noon_31_Mar_2024"
  by (simp add: txDate_def StringToNumber_noon dbl_vals)

lemma txDate_24_Mar_14h: "txDate (event (TsNumber (Fin 1711288800)) a) = Date 1711288800000"
  by (simp add: txDate_number)

lemma txDate_24_Mar_noon: "txDate (event (TsNumber (Fin 1711281600)) a) = Date 1711281600000"
  by (simp add: txDate_number)

lemma txDate_25_Mar_noon: "txDate (event (TsNumber (Fin 1711368000)) a) = Date 1711368000000"
  by (simp add: txDate_number)

lemma daysDiff_noon: "daysDiff noon_31_Mar_2024 noon_31_Mar_2024 = Fin 0"
  by (simp add: daysDiff_def num_sub_def to_double_0)

lemma daysDiff_24_Mar_14h: "daysDiff noon_31_Mar_2024 (Date 1711288800000) = Fin 6"
  by (simp add: daysDiff_def num_sub_def dbl_vals floor_eval)

lemma daysDiff_24_Mar_noon: "daysDiff noon_31_Mar_2024 (Date 1711281600000) = Fin 7"
  by (simp add: daysDiff_def num_sub_def dbl_vals floor_eval)

lemma daysDiff_25_Mar_noon: "daysDiff noon_31_Mar_2024 (Date 1711368000000) = Fin 6"
  by (simp add: daysDiff_def num_sub_def dbl_vals floor_eval)

lemma tx_key_noon:
  "tx_key Week noon_31_Mar_2024 (event (TsNumber (Fin 1711886400)) a) = Some ''31/03''"
  by (simp add: tx_key_def day_key_def txDate_noon daysDiff_noon dateFormat_noon)

lemma tx_key_noon_string:
  "tx_key Week noon_31_Mar_2024 (event (TsString ''1711886400'') a) = Some ''31/03''"
  by (simp add: tx_key_def day_key_def txDate_noon_string daysDiff_noon dateFormat_noon)

lemma tx_key_24_Mar_14h:
  "tx_key Week noon_31_Mar_2024 (event (TsNumber (Fin 1711288800)) a) = Some ''24/03''"
  by (simp add: tx_key_def day_key_def txDate_24_Mar_14h daysDiff_24_Mar_14h dateFormat_24_Mar)

text \<open>The week series at the reference instant when every event falls on its last day.\<close>

lemma week_series_today:
  assumes "txs \<noteq> []" and "\<forall>tx\<in>set txs. tx_key Week noon_31_Mar_2024 tx = Some ''31/03''"
  shows "generateChartData txs Week noon_31_Mar_2024 =
     map zero_point [''25/03'', ''26/03'', ''27/03'', ''28/03'', ''29/03'', ''30/03''] @
     [\<lparr>date = ''31/03'', revenue = round2 (foldl num_add (Fin 0) (map amount txs)),
       transactions = length txs, fees = fee_of (foldl num_add (Fin 0) (map amount txs))\<rparr>]"
proof -
  have h1: "hits Week noon_31_Mar_2024 ''31/03'' txs = txs"
    unfolding hits_def using assms(2) by (intro filter_True) simp
  have h2: "k \<noteq> ''31/03'' \<Longrightarrow> hits Week noon_31_Mar_2024 k txs = []" for k
    unfolding hits_def using assms(2) by (intro filter_False) simp
  show ?thesis
    unfolding series_eq [OF assms(1)] labels_week_31_Mar
    by (simp add: h1 h2 total_def zero_point_def round2_0 fee_of_0)
qed

text \<open>A single event whose label is none of the week's labels.\<close>

lemma week_series_miss:
  assumes "tx_key Week noon_31_Mar_2024 tx = Some ''24/03''"
  shows "generateChartData [tx] Week noon_31_Mar_2024 =
     map zero_point [''25/03'', ''26/03'', ''27/03'', ''28/03'', ''29/03'', ''30/03'', ''31/03'']"
proof -
  have ne: "[tx] \<noteq> []" by simp
  show ?thesis
    unfolding series_eq [OF ne] labels_week_31_Mar
    by (simp add: hits_def assms total_def zero_point_def round2_0 fee_of_0)
qed

lemma grouped_week_today:
  assumes "\<forall>tx\<in>set txs. tx_key Week noon_31_Mar_2024 tx = Some ''31/03''"
  shows "grouped txs Week noon_31_Mar_2024 =
     map (\<lambda>k. (k, Fin 0, 0)) [''25/03'', ''26/03'', ''27/03'', ''28/03'', ''29/03'', ''30/03''] @
     [(''31/03'', foldl num_add (Fin 0) (map amount txs), length txs)]"
proof -
  have h1: "hits Week noon_31_Mar_2024 ''31/03'' txs = txs"
    unfolding hits_def using assms by (intro filter_True) simp
  have h2: "k \<noteq> ''31/03'' \<Longrightarrow> hits Week noon_31_Mar_2024 k txs = []" for k
    unfolding hits_def using assms by (intro filter_False) simp
  show ?thesis
    unfolding grouped_entries skeleton_keys labels_week_31_Mar
    by (simp add: h1 h2)
qed

lemma label_week_oldest: "label Week noon_31_Mar_2024 6 = ''25/03''"
  by (simp add: label_def cal_eval fmt_eval)

lemma amount_absent: "amountSC tx = None \<or> amountSC tx = Some [] \<Longrightarrow> amount tx = Fin 0"
  by (auto simp: amount_def or_zero_def parseFloat_0)

section \<open>The claims\<close>

subsection \<open>Fixed cardinality\<close>

text \<open>
  C1. The claim: 7, 30 or 12 buckets for every event list and every \<open>now\<close>, also on day
  29, 30 or 31 of a month. The populated run does not keep it. At 2024-03-31T12:00:00Z
  the call \<^verbatim>\<open>date.setMonth(date.getMonth() - i)\<close> keeps the day of the month 31, which
  overflows for every target month with fewer days (April 31 is May 1), so the label of
  the following month is computed twice; the dictionary holds one entry for each label,
  and the year series of a non-empty event list has 7 buckets, not 12.
\<close>

theorem year_series_31_Mar_has_7_buckets:
  "map date (generateChartData [event (TsNumber (Fin 1711886400)) (Some ''5'')] Year noon_31_Mar_2024) =
     [''May'', ''Jul'', ''Aug'', ''Oct'', ''Dec'', ''Jan'', ''Mar''] \<and>
   length (generateChartData [event (TsNumber (Fin 1711886400)) (Some ''5'')] Year noon_31_Mar_2024) = 7"
proof -
  let ?G = "generateChartData [event (TsNumber (Fin 1711886400)) (Some ''5'')] Year noon_31_Mar_2024"
  have d: "map date ?G = [''May'', ''Jul'', ''Aug'', ''Oct'', ''Dec'', ''Jan'', ''Mar'']"
    by (simp add: series_dates labels_year_31_Mar)
  have "length ?G = length (map date ?G)" by simp
  also have "\<dots> = 7" unfolding d by simp
  finally show ?thesis using d by simp
qed

subsection \<open>Absent and unparseable amounts\<close>

text \<open>
  C2, as amended. An event whose \<^verbatim>\<open>amountSC\<close> is absent or the empty string adds the
  number zero: if it is added under the label \<open>k\<close>, the entry \<open>(k, r, c)\<close> of the
  dictionary becomes \<open>(k, r + 0, c + 1)\<close>. A bucket of the returned series that receives
  such events only, and at least one, has revenue 0, fees 0 and a positive count.
\<close>

theorem absent_amount_adds_zero:
  "(amountSC tx = None \<or> amountSC tx = Some [] \<longrightarrow>
      amount tx = Fin 0 \<and>
      ((k, r, c) \<in> set (grouped txs period now) \<and> tx_key period now tx = Some k \<longrightarrow>
         (k, num_add r (Fin 0), c + 1) \<in> set (grouped (txs @ [tx]) period now))) \<and>
   (txs \<noteq> [] \<and> b \<in> set (generateChartData txs period now) \<and>
    hits period now (date b) txs \<noteq> [] \<and>
    (\<forall>e\<in>set (hits period now (date b) txs). amountSC e = None \<or> amountSC e = Some []) \<longrightarrow>
      revenue b = Fin 0 \<and> fees b = Fin 0 \<and> 0 < transactions b)"
proof (intro conjI impI)
  assume a: "amountSC tx = None \<or> amountSC tx = Some []"
  then show z: "amount tx = Fin 0" by (rule amount_absent)
  assume h: "(k, r, c) \<in> set (grouped txs period now) \<and> tx_key period now tx = Some k"
  then have k: "k \<in> set (map fst (skeleton period now))"
    and r: "r = foldl num_add (Fin 0) (map amount (hits period now k txs))"
    and c: "c = length (hits period now k txs)"
    unfolding grouped_entries by auto
  from h have "hits period now k (txs @ [tx]) = hits period now k txs @ [tx]"
    by (simp add: hits_snoc)
  then have "(k, num_add r (Fin 0), c + 1) =
      (k, foldl num_add (Fin 0) (map amount (hits period now k (txs @ [tx]))),
       length (hits period now k (txs @ [tx])))"
    by (simp add: r c z)
  with k show "(k, num_add r (Fin 0), c + 1) \<in> set (grouped (txs @ [tx]) period now)"
    unfolding grouped_entries by (simp add: image_iff) blast
next
  assume h: "txs \<noteq> [] \<and> b \<in> set (generateChartData txs period now) \<and>
    hits period now (date b) txs \<noteq> [] \<and>
    (\<forall>e\<in>set (hits period now (date b) txs). amountSC e = None \<or> amountSC e = Some [])"
  then have b: "revenue b = round2 (total period now (date b) txs)"
      "fees b = fee_of (total period now (date b) txs)"
      "transactions b = length (hits period now (date b) txs)"
    unfolding series_eq [of txs period now, OF conjunct1 [OF h]] by auto
  from h have "\<forall>a\<in>set (map amount (hits period now (date b) txs)). a = Fin 0"
    by (auto simp: amount_absent)
  then have "total period now (date b) txs = Fin 0"
    unfolding total_def by (rule foldl_add_zero)
  with b h show "revenue b = Fin 0" "fees b = Fin 0" "0 < transactions b"
    by (simp_all add: round2_0 fee_of_0)
qed

text \<open>
  At 2024-03-31T12:00:00Z, for events of that instant without an amount.
\<close>

theorem absent_amount_adds_zero_witness:
  "amount (event (TsNumber (Fin 1711886400)) None) = Fin 0 \<and>
   (''31/03'', num_add (Fin 0) (Fin 0), 1 + 1) \<in>
     set (grouped ([event (TsNumber (Fin 1711886400)) None] @ [event (TsNumber (Fin 1711886400)) None])
            Week noon_31_Mar_2024) \<and>
   revenue (last (generateChartData [event (TsNumber (Fin 1711886400)) None] Week noon_31_Mar_2024)) = Fin 0 \<and>
   fees (last (generateChartData [event (TsNumber (Fin 1711886400)) None] Week noon_31_Mar_2024)) = Fin 0 \<and>
   0 < transactions (last (generateChartData [event (TsNumber (Fin 1711886400)) None] Week noon_31_Mar_2024))"
proof -
  let ?e = "event (TsNumber (Fin 1711886400)) None"
  let ?b = "last (generateChartData [?e] Week noon_31_Mar_2024)"
  have z: "amount ?e = Fin 0" by (simp add: amount_absent)
  have g: "(''31/03'', Fin 0, 1) \<in> set (grouped [?e] Week noon_31_Mar_2024)"
    by (simp add: grouped_week_today tx_key_noon z to_double_0)
  have s: "generateChartData [?e] Week noon_31_Mar_2024 =
     map zero_point [''25/03'', ''26/03'', ''27/03'', ''28/03'', ''29/03'', ''30/03''] @
     [\<lparr>date = ''31/03'', revenue = Fin 0, transactions = 1, fees = Fin 0\<rparr>]"
    by (simp add: week_series_today tx_key_noon z to_double_0 round2_0 fee_of_0)
  have d: "date ?b = ''31/03''" and m: "?b \<in> set (generateChartData [?e] Week noon_31_Mar_2024)"
    unfolding s by simp_all
  have hh: "hits Week noon_31_Mar_2024 ''31/03'' [?e] = [?e]"
    by (simp add: hits_def tx_key_noon)
  from absent_amount_adds_zero [of ?e "''31/03''" "Fin 0" 1 "[?e]" Week noon_31_Mar_2024 ?b]
  show ?thesis using g m by (simp add: tx_key_noon d hh)
qed

text \<open>
  The claim as stated also covers an amount that is not numeric. For
  \<^verbatim>\<open>amountSC = "abc"\<close> the replacement \<^verbatim>\<open>|| "0"\<close> does not apply, \<^verbatim>\<open>parseFloat\<close> returns
  \<open>NaN\<close>, and the bucket ends with revenue \<open>NaN\<close> and fees \<open>NaN\<close>, not zero; the count is
  still incremented.
\<close>

theorem non_numeric_amount_gives_NaN:
  "revenue (last (generateChartData [event (TsNumber (Fin 1711886400)) (Some ''abc'')] Week noon_31_Mar_2024)) = NaN \<and>
   fees (last (generateChartData [event (TsNumber (Fin 1711886400)) (Some ''abc'')] Week noon_31_Mar_2024)) = NaN \<and>
   transactions (last (generateChartData [event (TsNumber (Fin 1711886400)) (Some ''abc'')] Week noon_31_Mar_2024)) = 1"
  by (simp add: week_series_today tx_key_noon amount_def or_zero_def parseFloat_abc round2_def fee_of_def)

subsection \<open>Fees\<close>

text \<open>
  C3, as amended. For a non-empty event list every returned bucket is computed from the
  raw accumulated revenue of its label, the amounts added in event order: the revenue is
  that sum rounded by \<^verbatim>\<open>Math.round(x * 100) / 100\<close>, and the fees are
  \<^verbatim>\<open>Math.round(x * 0.01 * 100) / 100\<close> of the same raw sum, not of the rounded revenue; the
  count is the number of events added under the label.
\<close>

theorem fees_from_raw_total:
  assumes "txs \<noteq> []" and "b \<in> set (generateChartData txs period now)"
  shows "revenue b = round2 (total period now (date b) txs) \<and>
         fees b = fee_of (total period now (date b) txs) \<and>
         transactions b = length (hits period now (date b) txs)"
  using assms(2) unfolding series_eq [OF assms(1)] by auto

text \<open>
  At 2024-03-31T12:00:00Z with one event of amount \<^verbatim>\<open>"1.496"\<close>.
\<close>

theorem fees_from_raw_total_witness:
  "revenue (last (generateChartData [event (TsNumber (Fin 1711886400)) (Some ''1.496'')] Week noon_31_Mar_2024)) =
     round2 (total Week noon_31_Mar_2024 ''31/03'' [event (TsNumber (Fin 1711886400)) (Some ''1.496'')]) \<and>
   fees (last (generateChartData [event (TsNumber (Fin 1711886400)) (Some ''1.496'')] Week noon_31_Mar_2024)) =
     fee_of (total Week noon_31_Mar_2024 ''31/03'' [event (TsNumber (Fin 1711886400)) (Some ''1.496'')]) \<and>
   transactions (last (generateChartData [event (TsNumber (Fin 1711886400)) (Some ''1.496'')] Week noon_31_Mar_2024)) =
     length (hits Week noon_31_Mar_2024 ''31/03'' [event (TsNumber (Fin 1711886400)) (Some ''1.496'')]) \<and>
   total Week noon_31_Mar_2024 ''31/03'' [event (TsNumber (Fin 1711886400)) (Some ''1.496'')] =
     to_double (1496 / 1000)"
proof -
  let ?e = "event (TsNumber (Fin 1711886400)) (Some ''1.496'')"
  let ?G = "generateChartData [?e] Week noon_31_Mar_2024"
  have ne: "[?e] \<noteq> []" by simp
  have m: "last ?G \<in> set ?G" using series_nonempty by (rule last_in_set)
  have d: "date (last ?G) = ''31/03''"
    by (simp add: week_series_today tx_key_noon)
  have t: "total Week noon_31_Mar_2024 ''31/03'' [?e] = to_double (1496 / 1000)"
    by (simp add: total_def hits_def tx_key_noon amount_def or_zero_def parseFloat_1496 dbl_vals)
  from fees_from_raw_total [OF ne m] show ?thesis unfolding d using t by simp
qed

text \<open>
  The claim as stated derives the fees from the rounded revenue. In the run above the
  raw sum is 1.496, the emitted revenue is 1.5 and the emitted fees are 0.01
  (\<^verbatim>\<open>Math.round(1.496)\<close> is 1), while one percent of the emitted revenue, rounded the same
  way, is 0.02 (\<^verbatim>\<open>Math.round(1.5)\<close> is 2).
\<close>

theorem fees_differ_from_one_percent_of_rounded_revenue:
  "revenue (last (generateChartData [event (TsNumber (Fin 1711886400)) (Some ''1.496'')] Week noon_31_Mar_2024)) = Fin (3 / 2) \<and>
   fees (last (generateChartData [event (TsNumber (Fin 1711886400)) (Some ''1.496'')] Week noon_31_Mar_2024)) = to_double (1 / 100) \<and>
   fee_of (Fin (3 / 2)) = to_double (2 / 100) \<and>
   to_double (1 / 100) \<noteq> to_double (2 / 100)"
  by (simp add: week_series_today tx_key_noon amount_def or_zero_def parseFloat_1496
        round2_def fee_of_def lit_0_01_def dbl_vals floor_eval)

subsection \<open>The edges of the daily window\<close>

text \<open>
  C4, as amended. For the daily periods, an event whose day difference equals the window
  size is added to no bucket. An event \<open>b\<close> with a usable timestamp whose day difference
  is the window size minus one is added to the oldest bucket, the first entry of the
  dictionary, and to no other, when its \<^verbatim>\<open>DD/MM\<close> label is the label of the oldest bucket;
  when its label is none of the skeleton's labels it is added to no bucket. The day
  difference counts elapsed periods of 24 hours, so the second case is that of an event
  later in the day than \<open>now\<close>: it lies on the calendar day before the window.
\<close>

theorem daily_window_edges:
  assumes "period \<noteq> Year"
  shows "(daysDiff now (txDate a) = Fin (of_nat (daysToShow period)) \<longrightarrow>
            grouped (pre @ a # post) period now = grouped (pre @ post) period now) \<and>
         (\<not> ts_falsy (timestamp b) \<and> daysDiff now (txDate b) = Fin (of_nat (daysToShow period) - 1) \<longrightarrow>
            (dateFormat (txDate b) = label period now (daysToShow period - 1) \<longrightarrow>
               grouped (txs @ [b]) period now =
                 (case grouped txs period now of [] \<Rightarrow> []
                  | (k, r, c) # rest \<Rightarrow> (k, num_add r (amount b), c + 1) # rest)) \<and>
            (dateFormat (txDate b) \<notin> set (labels period now) \<longrightarrow>
               grouped (txs @ [b]) period now = grouped txs period now))"
proof (intro conjI impI)
  assume "daysDiff now (txDate a) = Fin (of_nat (daysToShow period))"
  with assms have "tx_key period now a = None"
    by (simp add: tx_key_def day_key_def)
  then show "grouped (pre @ a # post) period now = grouped (pre @ post) period now"
    by (rule grouped_skip)
next
  assume b: "\<not> ts_falsy (timestamp b) \<and> daysDiff now (txDate b) = Fin (of_nat (daysToShow period) - 1)"
  have "0 < daysToShow period" by (cases period) auto
  with assms b have k: "tx_key period now b = Some (dateFormat (txDate b))"
    by (simp add: tx_key_def day_key_def)
  {
    assume "dateFormat (txDate b) = label period now (daysToShow period - 1)"
    with k show "grouped (txs @ [b]) period now =
                 (case grouped txs period now of [] \<Rightarrow> []
                  | (k, r, c) # rest \<Rightarrow> (k, num_add r (amount b), c + 1) # rest)"
      by (intro grouped_snoc_oldest) simp
  }
  {
    assume "dateFormat (txDate b) \<notin> set (labels period now)"
    with k show "grouped (txs @ [b]) period now = grouped txs period now"
      by (rule grouped_snoc_miss)
  }
qed

text \<open>
  At 2024-03-31T12:00:00Z: an event at noon of 24 March (day difference 7), one at noon
  of 25 March (day difference 6, the label of the oldest bucket) and one at 14:00 of
  24 March (day difference 6, a label outside the skeleton).
\<close>

theorem daily_window_edges_witness:
  "grouped ([] @ event (TsNumber (Fin 1711281600)) (Some ''5'') # []) Week noon_31_Mar_2024 =
     grouped ([] @ []) Week noon_31_Mar_2024 \<and>
   grouped ([] @ [event (TsNumber (Fin 1711368000)) (Some ''5'')]) Week noon_31_Mar_2024 =
     (case grouped [] Week noon_31_Mar_2024 of [] \<Rightarrow> []
      | (k, r, c) # rest \<Rightarrow>
          (k, num_add r (amount (event (TsNumber (Fin 1711368000)) (Some ''5''))), c + 1) # rest) \<and>
   grouped ([] @ [event (TsNumber (Fin 1711288800)) (Some ''5'')]) Week noon_31_Mar_2024 =
     grouped [] Week noon_31_Mar_2024"
proof -
  let ?a = "event (TsNumber (Fin 1711281600)) (Some ''5'')"
  let ?b = "event (TsNumber (Fin 1711368000)) (Some ''5'')"
  let ?c = "event (TsNumber (Fin 1711288800)) (Some ''5'')"
  have w: "Week \<noteq> Year" by simp
  have a: "daysDiff noon_31_Mar_2024 (txDate ?a) = Fin (of_nat (daysToShow Week))"
    by (simp add: txDate_24_Mar_noon daysDiff_24_Mar_noon)
  have b: "\<not> ts_falsy (timestamp ?b) \<and>
           daysDiff noon_31_Mar_2024 (txDate ?b) = Fin (of_nat (daysToShow Week) - 1)"
    by (simp add: txDate_25_Mar_noon daysDiff_25_Mar_noon)
  have b': "dateFormat (txDate ?b) = label Week noon_31_Mar_2024 (daysToShow Week - 1)"
    by (simp add: txDate_25_Mar_noon dateFormat_25_Mar label_week_oldest)
  have c: "\<not> ts_falsy (timestamp ?c) \<and>
           daysDiff noon_31_Mar_2024 (txDate ?c) = Fin (of_nat (daysToShow Week) - 1)"
    by (simp add: txDate_24_Mar_14h daysDiff_24_Mar_14h)
  have c': "dateFormat (txDate ?c) \<notin> set (labels Week noon_31_Mar_2024)"
    by (simp add: txDate_24_Mar_14h dateFormat_24_Mar labels_week_31_Mar)
  from daily_window_edges [OF w, of noon_31_Mar_2024 ?a "[]" "[]" ?b "[]"]
       daily_window_edges [OF w, of noon_31_Mar_2024 ?a "[]" "[]" ?c "[]"]
  show ?thesis using a b b' c c' by blast
qed

text \<open>
  The claim as stated puts every event of day difference 6 into the oldest bucket of the
  week. The event at 2024-03-24T14:00:00Z has day difference 6 from
  2024-03-31T12:00:00Z and the label \<^verbatim>\<open>24/03\<close>; the skeleton runs from \<^verbatim>\<open>25/03\<close> to
  \<^verbatim>\<open>31/03\<close>, and no bucket counts the event.
\<close>

theorem day_before_window_event_dropped:
  "daysDiff noon_31_Mar_2024 (txDate (event (TsNumber (Fin 1711288800)) (Some ''5''))) = Fin 6 \<and>
   dateFormat (txDate (event (TsNumber (Fin 1711288800)) (Some ''5''))) = ''24/03'' \<and>
   map date (generateChartData [event (TsNumber (Fin 1711288800)) (Some ''5'')] Week noon_31_Mar_2024) =
     [''25/03'', ''26/03'', ''27/03'', ''28/03'', ''29/03'', ''30/03'', ''31/03''] \<and>
   map transactions (generateChartData [event (TsNumber (Fin 1711288800)) (Some ''5'')] Week noon_31_Mar_2024) =
     [0, 0, 0, 0, 0, 0, 0]"
  by (simp add: txDate_24_Mar_14h daysDiff_24_Mar_14h dateFormat_24_Mar
        week_series_miss tx_key_24_Mar_14h zero_point_def)

subsection \<open>String timestamps\<close>

text \<open>
  C5, as amended. An event whose timestamp is a string is excluded from every bucket
  when the string is empty or \<^verbatim>\<open>Number\<close> maps it to \<open>NaN\<close>. A non-empty string that
  \<^verbatim>\<open>Number\<close> maps to a number other than zero is treated as that number: the dictionary
  is the one built with the numeric timestamp in its place.
\<close>

theorem string_timestamp_as_number:
  assumes "timestamp tx = TsString s"
  shows "(s = [] \<or> StringToNumber s = NaN \<longrightarrow>
            grouped (pre @ tx # post) period now = grouped (pre @ post) period now) \<and>
         (s \<noteq> [] \<and> num_truthy (StringToNumber s) \<longrightarrow>
            grouped (pre @ tx # post) period now =
            grouped (pre @ tx\<lparr>timestamp := TsNumber (StringToNumber s)\<rparr> # post) period now)"
proof (intro conjI impI)
  assume "s = [] \<or> StringToNumber s = NaN"
  then have "ts_falsy (timestamp tx) \<or> txDate tx = Invalid_Date"
    using assms by (auto simp: txDate_def)
  then have "tx_key period now tx = None"
    using invalid_not_in_window [of period now] by (auto simp: tx_key_in_window)
  then show "grouped (pre @ tx # post) period now = grouped (pre @ post) period now"
    by (rule grouped_skip)
next
  assume a: "s \<noteq> [] \<and> num_truthy (StringToNumber s)"
  let ?tx' = "tx\<lparr>timestamp := TsNumber (StringToNumber s)\<rparr>"
  have d: "txDate ?tx' = txDate tx" using assms by (simp add: txDate_def)
  have f: "ts_falsy (timestamp ?tx') = ts_falsy (timestamp tx)" using assms a by simp
  have "tx_key period now tx = tx_key period now ?tx'"
    unfolding tx_key_in_window d f ..
  moreover have "amount tx = amount ?tx'" by (simp add: amount_def)
  ultimately show "grouped (pre @ tx # post) period now = grouped (pre @ ?tx' # post) period now"
    by (rule grouped_replace)
qed

text \<open>
  At 2024-03-31T12:00:00Z, for the timestamps \<^verbatim>\<open>"abc"\<close> and \<^verbatim>\<open>"1711886400"\<close>.
\<close>

theorem string_timestamp_as_number_witness:
  "grouped ([] @ event (TsString ''abc'') (Some ''5'') # []) Week noon_31_Mar_2024 =
     grouped ([] @ []) Week noon_31_Mar_2024 \<and>
   grouped ([] @ event (TsString ''1711886400'') (Some ''5'') # []) Week noon_31_Mar_2024 =
     grouped ([] @ event (TsNumber (Fin 1711886400)) (Some ''5'') # []) Week noon_31_Mar_2024"
  using string_timestamp_as_number [of "event (TsString ''abc'') (Some ''5'')" "''abc''" "[]" "[]" Week noon_31_Mar_2024]
    string_timestamp_as_number [of "event (TsString ''1711886400'') (Some ''5'')" "''1711886400''" "[]" "[]" Week noon_31_Mar_2024]
  by (simp add: StringToNumber_abc StringToNumber_noon)

text \<open>
  The claim as stated excludes every string timestamp. The event with timestamp
  \<^verbatim>\<open>"1711886400"\<close> is counted in the bucket of 31 March.
\<close>

theorem numeric_string_timestamp_is_counted:
  "map transactions (generateChartData [event (TsString ''1711886400'') (Some ''5'')] Week noon_31_Mar_2024) =
     [0, 0, 0, 0, 0, 0, 1]"
  by (simp add: week_series_today tx_key_noon_string zero_point_def)

subsection \<open>Order of the buckets and of the events\<close>




subsection \<open>The empty event list\<close>

text \<open>
  C7. The claim: for the empty event list every bucket is zero, and the series has the
  length and the label sequence of the skeleton of a populated run. The zero values hold
  (\<open>empty_series_zero\<close>); the shape does not. At 2024-03-31T12:00:00Z the year series
  for the empty list has 12 buckets with five labels repeated, and the populated run
  builds 7: the overflow of \<^verbatim>\<open>setMonth\<close> described for C1.
\<close>

theorem empty_year_series_31_Mar_has_12_buckets:
  "map date (generateChartData [] Year noon_31_Mar_2024) =
     [''May'', ''May'', ''Jul'', ''Jul'', ''Aug'', ''Oct'', ''Oct'', ''Dec'', ''Dec'', ''Jan'',
      ''Mar'', ''Mar''] \<and>
   map date (generateChartData [] Year noon_31_Mar_2024) \<noteq>
   map date (generateChartData [event (TsNumber (Fin 1711886400)) (Some ''5'')] Year noon_31_Mar_2024)"
  by (simp add: empty_series series_dates labels_year_31_Mar comp_def zero_point_def)

subsection \<open>Totality\<close>




subsection \<open>The overview statistics\<close>

text \<open>
  C9. The success rate is \<open>100\<close> for a non-empty transaction list and \<open>0\<close> for the empty
  one; the failed and the pending counts are \<open>0\<close> for every list, whatever its
  transactions hold.
\<close>

theorem overviewStats_rates:
  "successRate (overviewStats txs) = (if txs = [] then 0 else 100) \<and>
   failedTransactions (overviewStats txs) = 0 \<and> pendingTransactions (overviewStats txs) = 0"
  by (simp add: overviewStats_def)

theorem overviewStats_rates_witness:
  "successRate (overviewStats [\<lparr>timestamp = TsString ''x'', amountSC = None, amountBC = Some ''abc''\<rparr>]) = 100 \<and>
   failedTransactions (overviewStats [\<lparr>timestamp = TsString ''x'', amountSC = None, amountBC = Some ''abc''\<rparr>]) = 0 \<and>
   pendingTransactions (overviewStats [\<lparr>timestamp = TsString ''x'', amountSC = None, amountBC = Some ''abc''\<rparr>]) = 0"
  using overviewStats_rates [of "[\<lparr>timestamp = TsString ''x'', amountSC = None, amountBC = Some ''abc''\<rparr>]"]
  by simp

subsection \<open>Falsy timestamps\<close>

text \<open>
  C10. An event whose timestamp is the number \<open>0\<close> or the empty string is dropped by the
  test \<^verbatim>\<open>!tx.timestamp\<close> before any window check: for every period, every \<open>now\<close> and
  every surrounding event list the dictionary is the one built without the event, and so
  is the returned series as long as other events remain. This holds in particular for a
  \<open>now\<close> whose window contains the epoch.
\<close>

theorem falsy_timestamp_excluded:
  assumes "timestamp tx = TsNumber (Fin 0) \<or> timestamp tx = TsString []"
  shows "grouped (pre @ tx # post) period now = grouped (pre @ post) period now \<and>
         (pre @ post \<noteq> [] \<longrightarrow>
            generateChartData (pre @ tx # post) period now =
            generateChartData (pre @ post) period now)"
proof -
  from assms have "ts_falsy (timestamp tx)" by auto
  then have "tx_key period now tx = None" by (rule falsy_tx_key)
  then have "grouped (pre @ tx # post) period now = grouped (pre @ post) period now"
    by (rule grouped_skip)
  then show ?thesis by (simp add: generateChartData_def)
qed

text \<open>
  At \<open>now\<close> the epoch itself, the instant of timestamp \<open>0\<close> has day difference \<open>0\<close> and
  the label of today, yet the event leaves the dictionary as it is.
\<close>

theorem falsy_timestamp_excluded_witness:
  "grouped [\<lparr>timestamp = TsNumber (Fin 0), amountSC = Some ''5'', amountBC = None\<rparr>] Week (Date 0) =
     grouped [] Week (Date 0) \<and>
   daysDiff (Date 0) (new_Date (num_mul (Fin 0) (Fin 1000))) = Fin 0 \<and>
   dateFormat (new_Date (num_mul (Fin 0) (Fin 1000))) = ''01/01''"
  using falsy_timestamp_excluded [of "\<lparr>timestamp = TsNumber (Fin 0), amountSC = Some ''5'', amountBC = None\<rparr>" "[]" "[]" Week "Date 0"]
  by (simp add: daysDiff_def num_sub_def to_double_0 cal_eval fmt_eval)

end
